theory Spec2Isabelle
  imports Complex_Main "HOL-Library.Multiset"
begin

section \<open>Library API: the books service of \<^verbatim>\<open>src/lab7/main.py\<close>\<close>

text \<open>
  The service keeps one SQLite table \<^verbatim>\<open>books\<close> and an \<^verbatim>\<open>api.log\<close> file. Each route
  handler issues one SQL statement through \<^verbatim>\<open>database.fetch_one\<close> or
  \<^verbatim>\<open>database.fetch_all\<close>. A handler is a function from the state (table and log) to an
  outcome and the new state; the outcome is a value or a raised exception (\<open>Inl\<close>).
  Around a handler stand, from the inside out: the route (validation of the request body,
  \<^verbatim>\<open>response_model\<close>), the framework's exception handlers, the logging middleware, and the
  server's last resort that answers 500 for an exception nobody handled.

  Python values are modelled with the cases the code can meet: a \<^verbatim>\<open>str\<close> is a list of code
  points and may hold lone surrogates, which the database driver cannot encode; a \<^verbatim>\<open>float\<close>
  is a real number, an infinity or NaN; an \<^verbatim>\<open>int\<close> is unbounded, and the driver binds only
  signed 64-bit values. Rounding of finite floats is not modelled, and requests are handled
  one at a time. The ids that the storage engine has stored are integers without a bound
  in the model; an engine holds fewer than \<open>2^63\<close> rows.
\<close>

subsection \<open>Python values\<close>

type_synonym pystr = "nat list"

text \<open>A string constant of the program text.\<close>

definition py :: "string \<Rightarrow> pystr" where
  "py s = map of_char s"

text \<open>
  The code points that UTF-8 encodes: all up to U+10FFFF except the surrogates
  U+D800 to U+DFFF.
\<close>

definition scalar :: "nat \<Rightarrow> bool" where
  "scalar c = (c < 55296 \<or> (57343 < c \<and> c \<le> 1114111))"

definition utf8_encodable :: "pystr \<Rightarrow> bool" where
  "utf8_encodable s = list_all scalar s"

text \<open>A float that is a number, and a float.\<close>

datatype number = Finite real | PosInf | NegInf

datatype pyfloat = Num number | NaN

text \<open>The signed 64-bit range.\<close>

definition int64 :: "int \<Rightarrow> bool" where
  "int64 i = (- (2 ^ 63) \<le> i \<and> i < 2 ^ 63)"

subsection \<open>Data model\<close>

text \<open>
  \<^verbatim>\<open>class BookBase(BaseModel)\<close> has the fields \<^verbatim>\<open>title\<close>, \<^verbatim>\<open>author\<close>, \<^verbatim>\<open>price\<close>, and
  \<^verbatim>\<open>class Book(BookBase)\<close> adds \<^verbatim>\<open>id\<close> (named \<open>id'\<close> here, since \<open>id\<close> is the identity function
  of HOL). \<^verbatim>\<open>class BookDB(Base)\<close> has the same four names as columns. The three differ in
  what a field can hold, which is the type parameter of the records.
\<close>

record ('t, 'p) book_base =
  title :: 't
  author :: 't
  price :: 'p

record ('t, 'p) book_with_id = "('t, 'p) book_base" +
  id' :: int

text \<open>A validated request body: \<^verbatim>\<open>title: str\<close>, \<^verbatim>\<open>author: str\<close>, \<^verbatim>\<open>price: float\<close>.\<close>

type_synonym BookBase = "(pystr, pyfloat) book_base"

type_synonym BookCreate = BookBase

text \<open>
  A row of the table. \<^verbatim>\<open>Column(String)\<close> and \<^verbatim>\<open>Column(Float)\<close> are nullable (\<open>None\<close> is
  \<^verbatim>\<open>NULL\<close>); a \<^verbatim>\<open>REAL\<close> is never NaN.
\<close>

type_synonym BookDB = "(pystr option, number option) book_with_id"

text \<open>
  A \<^verbatim>\<open>Book\<close> as the response carries it: its price is a JSON number, or \<^verbatim>\<open>null\<close> (\<open>None\<close>)
  for an infinity.
\<close>

type_synonym Book = "(pystr, real option) book_with_id"

datatype level = INFO | WARNING

text \<open>The state: the rows of \<^verbatim>\<open>books\<close> in the order they were inserted, and the log lines.\<close>

record app_state =
  books :: "BookDB list"
  api_log :: "(level \<times> pystr) list"

text \<open>
  The exceptions: \<^verbatim>\<open>HTTPException(status_code, detail)\<close> raised by a handler, the
  framework's rejection of a request body that does not fit \<^verbatim>\<open>BookCreate\<close>, its rejection of
  a return value that does not fit the response model, and the two errors of the driver
  when it binds a parameter.
\<close>

datatype error =
  HTTPException int string
| RequestValidationError
| ResponseValidationError
| OverflowError
| UnicodeEncodeError

datatype 'a content = Payload 'a | Detail string | ValidationDetail | ServerError

record 'a response =
  status_code :: int
  body :: "'a content"

text \<open>
  The framework's exception handlers, which stand inside the middleware: a returned value
  is sent with status 200, an \<^verbatim>\<open>HTTPException\<close> with its own status and \<^verbatim>\<open>{"detail": ...}\<close>, a
  request validation failure with 422. Every other exception is raised further.
\<close>

fun handle_exceptions :: "error + 'a \<Rightarrow> error + 'a response" where
  "handle_exceptions (Inr v) = Inr \<lparr>status_code = 200, body = Payload v\<rparr>"
| "handle_exceptions (Inl (HTTPException c d)) = Inr \<lparr>status_code = c, body = Detail d\<rparr>"
| "handle_exceptions (Inl RequestValidationError) = Inr \<lparr>status_code = 422, body = ValidationDetail\<rparr>"
| "handle_exceptions (Inl ResponseValidationError) = Inl ResponseValidationError"
| "handle_exceptions (Inl OverflowError) = Inl OverflowError"
| "handle_exceptions (Inl UnicodeEncodeError) = Inl UnicodeEncodeError"

text \<open>The server's last resort, outside the middleware: 500 for an exception that arrives.\<close>

fun server_error :: "error + 'a response \<Rightarrow> 'a response" where
  "server_error (Inr r) = r"
| "server_error (Inl e) = \<lparr>status_code = 500, body = ServerError\<rparr>"

text \<open>The response that the client gets for an outcome.\<close>

definition to_response :: "error + 'a \<Rightarrow> 'a response" where
  "to_response outcome = server_error (handle_exceptions outcome)"

subsection \<open>Logging\<close>

text \<open>
  A log line is the level and the message that the logger is given; what the file handler
  makes of it is not modelled.
\<close>

definition logger_info :: "pystr \<Rightarrow> app_state \<Rightarrow> app_state" where
  "logger_info msg s = s\<lparr>api_log := api_log s @ [(INFO, msg)]\<rparr>"

definition logger_warning :: "pystr \<Rightarrow> app_state \<Rightarrow> app_state" where
  "logger_warning msg s = s\<lparr>api_log := api_log s @ [(WARNING, msg)]\<rparr>"

text \<open>Python's \<^verbatim>\<open>str\<close> of an integer, as the f-strings of the handlers use it.\<close>

definition digit_char :: "nat \<Rightarrow> char" where
  "digit_char d = char_of (48 + d)"

fun digits :: "nat \<Rightarrow> string" where
  "digits n = (if n < 10 then [digit_char n] else digits (n div 10) @ [digit_char (n mod 10)])"

definition str_int :: "int \<Rightarrow> string" where
  "str_int i = (if i < 0 then CHR ''-'' # digits (nat (- i)) else digits (nat i))"

subsection \<open>The database driver\<close>

text \<open>
  What the driver does with a parameter of a statement: an \<^verbatim>\<open>int\<close> outside the signed
  64-bit range raises \<^verbatim>\<open>OverflowError\<close>, a \<^verbatim>\<open>str\<close> with a lone surrogate raises
  \<^verbatim>\<open>UnicodeEncodeError\<close>, and a NaN is bound as \<^verbatim>\<open>NULL\<close>. The statement does not run when a
  parameter is refused.
\<close>

definition bind_int :: "int \<Rightarrow> error + int" where
  "bind_int i = (if int64 i then Inr i else Inl OverflowError)"

definition bind_str :: "pystr \<Rightarrow> error + pystr" where
  "bind_str s = (if utf8_encodable s then Inr s else Inl UnicodeEncodeError)"

fun bind_float :: "pyfloat \<Rightarrow> number option" where
  "bind_float (Num x) = Some x"
| "bind_float NaN = None"

text \<open>The parameters \<^verbatim>\<open>:title\<close>, \<^verbatim>\<open>:author\<close>, \<^verbatim>\<open>:price\<close>, in the order of the statement.\<close>

definition bind_book :: "BookCreate \<Rightarrow> error + (pystr \<times> pystr \<times> number option)" where
  "bind_book book =
     (case bind_str (title book) of
        Inl e \<Rightarrow> Inl e
      | Inr t \<Rightarrow>
          (case bind_str (author book) of
             Inl e \<Rightarrow> Inl e
           | Inr a \<Rightarrow> Inr (t, a, bind_float (price book))))"

subsection \<open>The storage engine\<close>

text \<open>
  The five SQL statements of the handlers, on the list of rows. The table is a rowid table
  whose \<^verbatim>\<open>id\<close> column is \<^verbatim>\<open>Column(Integer, primary_key=True)\<close>, so \<^verbatim>\<open>id\<close> is the rowid: a
  scan without \<^verbatim>\<open>ORDER BY\<close> walks the rows by ascending rowid, and an \<^verbatim>\<open>INSERT\<close> that gives
  no \<^verbatim>\<open>id\<close> gets 1 in an empty table and otherwise one more than the largest rowid in the
  table at that moment (the column is not declared \<^verbatim>\<open>AUTOINCREMENT\<close>).
\<close>

definition scan :: "BookDB list \<Rightarrow> BookDB list" where
  "scan rows = sort_key id' rows"

fun next_rowid :: "BookDB list \<Rightarrow> int" where
  "next_rowid [] = 1"
| "next_rowid (r # rs) = fold (\<lambda>x m. max (id' x) m) rs (id' r) + 1"

text \<open>\<^verbatim>\<open>SELECT * FROM books\<close>\<close>

definition select_all :: "BookDB list \<Rightarrow> BookDB list" where
  "select_all rows = scan rows"

text \<open>\<^verbatim>\<open>SELECT * FROM books WHERE id = :id\<close>\<close>

definition select_by_id :: "int \<Rightarrow> BookDB list \<Rightarrow> BookDB list" where
  "select_by_id i rows = filter (\<lambda>r. id' r = i) (scan rows)"

text \<open>
  \<^verbatim>\<open>INSERT INTO books (title, author, price) VALUES (:title, :author, :price) RETURNING *\<close>:
  the new table and the returned rows.
\<close>

definition insert_returning ::
  "pystr \<Rightarrow> pystr \<Rightarrow> number option \<Rightarrow> BookDB list \<Rightarrow> BookDB list \<times> BookDB list" where
  "insert_returning t a p rows =
     (let r = \<lparr>title = Some t, author = Some a, price = p, id' = next_rowid rows\<rparr>
      in (rows @ [r], [r]))"

text \<open>
  \<^verbatim>\<open>UPDATE books SET title = :title, author = :author, price = :price WHERE id = :id RETURNING *\<close>
\<close>

definition set_fields :: "pystr \<Rightarrow> pystr \<Rightarrow> number option \<Rightarrow> BookDB \<Rightarrow> BookDB" where
  "set_fields t a p r = r\<lparr>title := Some t, author := Some a, price := p\<rparr>"

definition update_returning ::
  "int \<Rightarrow> pystr \<Rightarrow> pystr \<Rightarrow> number option \<Rightarrow> BookDB list \<Rightarrow> BookDB list \<times> BookDB list" where
  "update_returning i t a p rows =
     (map (\<lambda>r. if id' r = i then set_fields t a p r else r) rows,
      map (set_fields t a p) (select_by_id i rows))"

text \<open>\<^verbatim>\<open>DELETE FROM books WHERE id = :id RETURNING *\<close>\<close>

definition delete_returning :: "int \<Rightarrow> BookDB list \<Rightarrow> BookDB list \<times> BookDB list" where
  "delete_returning i rows = (filter (\<lambda>r. id' r \<noteq> i) rows, select_by_id i rows)"

text \<open>\<^verbatim>\<open>database.fetch_all\<close> gives every row of the result, \<^verbatim>\<open>database.fetch_one\<close> the first or \<^verbatim>\<open>None\<close>.\<close>

definition fetch_all :: "'a list \<Rightarrow> 'a list" where
  "fetch_all result = result"

fun fetch_one :: "'a list \<Rightarrow> 'a option" where
  "fetch_one [] = None"
| "fetch_one (r # rs) = Some r"

subsection \<open>Route handlers\<close>

text \<open>
  The five \<^verbatim>\<open>async def\<close> handlers, statement by statement. An exception of the driver ends
  the handler where the statement is executed, after the first log line and before any
  other. \<^verbatim>\<open>create_book\<close> returns what \<^verbatim>\<open>fetch_one\<close> gave without a test; a \<^verbatim>\<open>None\<close> there would
  not fit \<^verbatim>\<open>response_model=Book\<close>, which is the branch \<open>ResponseValidationError\<close>.
\<close>

definition get_books :: "app_state \<Rightarrow> (error + BookDB list) \<times> app_state" where
  "get_books s =
     (let s1 = logger_info (py ''GET /books - Fetching all books'') s
      in (Inr (fetch_all (select_all (books s1))), s1))"

definition get_book :: "int \<Rightarrow> app_state \<Rightarrow> (error + BookDB) \<times> app_state" where
  "get_book book_id s =
     (let s1 = logger_info (py (''GET /books/'' @ str_int book_id)) s
      in case bind_int book_id of
           Inl e \<Rightarrow> (Inl e, s1)
         | Inr i \<Rightarrow>
             (case fetch_one (select_by_id i (books s1)) of
                None \<Rightarrow>
                  (Inl (HTTPException 404 ''Book not found''),
                   logger_warning (py (''Book with id '' @ str_int book_id @ '' not found'')) s1)
              | Some book \<Rightarrow> (Inr book, s1)))"

definition create_book :: "BookCreate \<Rightarrow> app_state \<Rightarrow> (error + BookDB) \<times> app_state" where
  "create_book book s =
     (let s1 = logger_info (py ''POST /books - Creating book: '' @ title book) s
      in case bind_book book of
           Inl e \<Rightarrow> (Inl e, s1)
         | Inr (t, a, p) \<Rightarrow>
             (let (rows, result) = insert_returning t a p (books s1);
                  s2 = s1\<lparr>books := rows\<rparr>
              in case fetch_one result of
                   None \<Rightarrow> (Inl ResponseValidationError, s2)
                 | Some created_book \<Rightarrow> (Inr created_book, s2)))"

definition update_book :: "int \<Rightarrow> BookCreate \<Rightarrow> app_state \<Rightarrow> (error + BookDB) \<times> app_state" where
  "update_book book_id book s =
     (let s1 = logger_info
                 (py (''PUT /books/'' @ str_int book_id @ '' - Updating book: '') @ title book) s
      in case bind_book book of
           Inl e \<Rightarrow> (Inl e, s1)
         | Inr (t, a, p) \<Rightarrow>
             (case bind_int book_id of
                Inl e \<Rightarrow> (Inl e, s1)
              | Inr i \<Rightarrow>
                  (let (rows, result) = update_returning i t a p (books s1);
                       s2 = s1\<lparr>books := rows\<rparr>
                   in case fetch_one result of
                        None \<Rightarrow>
                          (Inl (HTTPException 404 ''Book not found''),
                           logger_warning
                             (py (''Book with id '' @ str_int book_id @ '' not found'')) s2)
                      | Some updated_book \<Rightarrow> (Inr updated_book, s2))))"

definition delete_book :: "int \<Rightarrow> app_state \<Rightarrow> (error + (string \<times> string) list) \<times> app_state" where
  "delete_book book_id s =
     (let s1 = logger_info (py (''DELETE /books/'' @ str_int book_id)) s
      in case bind_int book_id of
           Inl e \<Rightarrow> (Inl e, s1)
         | Inr i \<Rightarrow>
             (let (rows, result) = delete_returning i (books s1);
                  s2 = s1\<lparr>books := rows\<rparr>
              in case fetch_one result of
                   None \<Rightarrow>
                     (Inl (HTTPException 404 ''Book not found''),
                      logger_warning (py (''Book with id '' @ str_int book_id @ '' not found'')) s2)
                 | Some deleted_book \<Rightarrow> (Inr [(''message'', ''Book deleted successfully'')], s2)))"

subsection \<open>Request bodies and their validation\<close>

text \<open>
  A request body as Python's JSON parser delivers it. A number is given through the float
  that the parser and the validation make of it (a number beyond the range of a float is an
  infinity, and the parser reads \<^verbatim>\<open>NaN\<close>). An object is the list of its members in the order
  of the text; the parser keeps the last of several members with one name.
\<close>

datatype json =
  JNull
| JBool bool
| JNum pyfloat
| JStr pystr
| JArr "json list"
| JObj "(pystr \<times> json) list"

definition member :: "pystr \<Rightarrow> (pystr \<times> json) list \<Rightarrow> json option" where
  "member k kvs = map_of (rev kvs) k"

text \<open>
  The fields of \<^verbatim>\<open>BookBase\<close> are annotated \<^verbatim>\<open>str\<close>, \<^verbatim>\<open>str\<close> and \<^verbatim>\<open>float\<close> and have no
  default, so each is required and \<^verbatim>\<open>null\<close> is refused. The repository states no
  constraint and no strict mode, so the validation library (pydantic 2) applies its
  default conversions: \<^verbatim>\<open>str\<close> takes a string only; \<^verbatim>\<open>float\<close> takes a number (infinities and
  NaN included), a boolean as 1 or 0, and a string that spells a float.
\<close>

fun validate_str :: "json \<Rightarrow> pystr option" where
  "validate_str (JStr s) = Some s"
| "validate_str v = None"

text \<open>
  A string spells a float when, with white space at both ends removed, it is an optional
  sign followed by \<^verbatim>\<open>inf\<close>, \<^verbatim>\<open>infinity\<close> or \<^verbatim>\<open>nan\<close> in any case, or by decimal digits with
  an optional point and an optional exponent, with a digit before or after the point. A
  string that fails this is tried once more with its underscores removed, if it has some,
  none of them at an end and no two in a row.
\<close>

definition is_digit :: "nat \<Rightarrow> bool" where
  "is_digit c = (48 \<le> c \<and> c \<le> 57)"

definition white_space :: "nat \<Rightarrow> bool" where
  "white_space c =
     (c \<in> set [9, 10, 11, 12, 13, 32, 133, 160, 5760, 8232, 8233, 8239, 8287, 12288]
      \<or> (8192 \<le> c \<and> c \<le> 8202))"

definition trim :: "pystr \<Rightarrow> pystr" where
  "trim s = rev (dropWhile white_space (rev (dropWhile white_space s)))"

definition to_lower :: "nat \<Rightarrow> nat" where
  "to_lower c = (if 65 \<le> c \<and> c \<le> 90 then c + 32 else c)"

definition digits_value :: "pystr \<Rightarrow> nat" where
  "digits_value ds = foldl (\<lambda>n d. 10 * n + (d - 48)) 0 ds"

fun split_sign :: "pystr \<Rightarrow> bool \<times> pystr" where
  "split_sign [] = (False, [])"
| "split_sign (c # cs) =
     (if c = 45 then (True, cs) else if c = 43 then (False, cs) else (False, c # cs))"

definition scale10 :: "real \<Rightarrow> int \<Rightarrow> real" where
  "scale10 x e = (if 0 \<le> e then x * 10 ^ nat e else x / 10 ^ nat (- e))"

text \<open>The float of a real number: an infinity from half a step above the largest float on.\<close>

definition round_float :: "real \<Rightarrow> number" where
  "round_float x =
     (if 2 ^ 1024 - 2 ^ 970 \<le> x then PosInf
      else if x \<le> - (2 ^ 1024 - 2 ^ 970) then NegInf
      else Finite x)"

fun parse_exponent :: "pystr \<Rightarrow> int option" where
  "parse_exponent [] = Some 0"
| "parse_exponent (c # cs) =
     (if to_lower c = 101 then
        (case split_sign cs of
           (neg, ds) \<Rightarrow>
             if ds \<noteq> [] \<and> list_all is_digit ds
             then Some (if neg then - int (digits_value ds) else int (digits_value ds))
             else None)
      else None)"

fun after_point :: "pystr \<Rightarrow> pystr \<times> pystr" where
  "after_point [] = ([], [])"
| "after_point (c # cs) =
     (if c = 46 then (takeWhile is_digit cs, dropWhile is_digit cs) else ([], c # cs))"

definition parse_number :: "pystr \<Rightarrow> real option" where
  "parse_number s =
     (let ip = takeWhile is_digit s;
          (fp, rest) = after_point (dropWhile is_digit s)
      in if ip = [] \<and> fp = [] then None
         else case parse_exponent rest of
                None \<Rightarrow> None
              | Some e \<Rightarrow> Some (scale10 (real (digits_value (ip @ fp))) (e - int (length fp))))"

definition parse_f64 :: "pystr \<Rightarrow> pyfloat option" where
  "parse_f64 s =
     (case split_sign s of
        (neg, r) \<Rightarrow>
          if map to_lower r = py ''inf'' \<or> map to_lower r = py ''infinity''
          then Some (Num (if neg then NegInf else PosInf))
          else if map to_lower r = py ''nan'' then Some NaN
          else (case parse_number r of
                  None \<Rightarrow> None
                | Some x \<Rightarrow> Some (Num (round_float (if neg then - x else x)))))"

fun has_double_underscore :: "pystr \<Rightarrow> bool" where
  "has_double_underscore (a # b # cs) = ((a = 95 \<and> b = 95) \<or> has_double_underscore (b # cs))"
| "has_double_underscore cs = False"

definition strip_underscores :: "pystr \<Rightarrow> pystr option" where
  "strip_underscores s =
     (if 95 \<notin> set s \<or> hd s = 95 \<or> last s = 95 \<or> has_double_underscore s then None
      else Some (filter (\<lambda>c. c \<noteq> 95) s))"

definition str_as_float :: "pystr \<Rightarrow> pyfloat option" where
  "str_as_float s =
     (case parse_f64 (trim s) of
        Some f \<Rightarrow> Some f
      | None \<Rightarrow> (case strip_underscores s of None \<Rightarrow> None | Some t \<Rightarrow> parse_f64 t))"

fun validate_float :: "json \<Rightarrow> pyfloat option" where
  "validate_float (JNum x) = Some x"
| "validate_float (JBool b) = Some (Num (Finite (if b then 1 else 0)))"
| "validate_float (JStr s) = (if utf8_encodable s then str_as_float s else None)"
| "validate_float v = None"

fun validate_fields :: "json option \<Rightarrow> json option \<Rightarrow> json option \<Rightarrow> BookCreate option" where
  "validate_fields (Some t) (Some a) (Some p) =
     (case validate_str t of
        None \<Rightarrow> None
      | Some t' \<Rightarrow>
          (case validate_str a of
             None \<Rightarrow> None
           | Some a' \<Rightarrow>
               (case validate_float p of
                  None \<Rightarrow> None
                | Some p' \<Rightarrow> Some \<lparr>title = t', author = a', price = p'\<rparr>)))"
| "validate_fields _ _ _ = None"

fun BookCreate_validate :: "json \<Rightarrow> error + BookCreate" where
  "BookCreate_validate (JObj kvs) =
     (case validate_fields (member (py ''title'') kvs) (member (py ''author'') kvs)
             (member (py ''price'') kvs) of
        None \<Rightarrow> Inl RequestValidationError
      | Some book \<Rightarrow> Inr book)"
| "BookCreate_validate _ = Inl RequestValidationError"

subsection \<open>Routes\<close>

text \<open>
  \<^verbatim>\<open>response_model=Book\<close>: the returned row must have a title, an author and a price, and is
  sent as JSON, in which an infinity is \<^verbatim>\<open>null\<close>. \<^verbatim>\<open>response_model=List[Book]\<close> asks this of
  every row.
\<close>

fun serialize_float :: "number \<Rightarrow> real option" where
  "serialize_float (Finite x) = Some x"
| "serialize_float PosInf = None"
| "serialize_float NegInf = None"

fun response_model_fields :: "pystr option \<Rightarrow> pystr option \<Rightarrow> number option \<Rightarrow> int \<Rightarrow> error + Book" where
  "response_model_fields (Some t) (Some a) (Some p) i =
     Inr \<lparr>title = t, author = a, price = serialize_float p, id' = i\<rparr>"
| "response_model_fields _ _ _ i = Inl ResponseValidationError"

definition response_model_Book :: "BookDB \<Rightarrow> error + Book" where
  "response_model_Book r = response_model_fields (title r) (author r) (price r) (id' r)"



definition app_get_book :: "int \<Rightarrow> app_state \<Rightarrow> (error + Book) \<times> app_state" where
  "app_get_book book_id s =
     (case get_book book_id s of
        (Inl e, s') \<Rightarrow> (Inl e, s')
      | (Inr row, s') \<Rightarrow> (response_model_Book row, s'))"

definition app_post_books :: "json \<Rightarrow> app_state \<Rightarrow> (error + Book) \<times> app_state" where
  "app_post_books request_body s =
     (case BookCreate_validate request_body of
        Inl e \<Rightarrow> (Inl e, s)
      | Inr book \<Rightarrow>
          (case create_book book s of
             (Inl e, s') \<Rightarrow> (Inl e, s')
           | (Inr row, s') \<Rightarrow> (response_model_Book row, s')))"

definition app_put_book :: "int \<Rightarrow> json \<Rightarrow> app_state \<Rightarrow> (error + Book) \<times> app_state" where
  "app_put_book book_id request_body s =
     (case BookCreate_validate request_body of
        Inl e \<Rightarrow> (Inl e, s)
      | Inr book \<Rightarrow>
          (case update_book book_id book s of
             (Inl e, s') \<Rightarrow> (Inl e, s')
           | (Inr row, s') \<Rightarrow> (response_model_Book row, s')))"

definition app_delete_book :: "int \<Rightarrow> app_state \<Rightarrow> (error + (string \<times> string) list) \<times> app_state" where
  "app_delete_book book_id s = delete_book book_id s"

subsection \<open>The logging middleware\<close>

text \<open>The parts of a request that the middleware reads: \<^verbatim>\<open>request.method\<close> and \<^verbatim>\<open>request.url.path\<close>.\<close>

record request =
  request_method :: pystr
  url_path :: pystr

text \<open>
  What \<^verbatim>\<open>call_next\<close> runs for a route: the route, and the framework's exception handlers.
  It returns a response or raises.
\<close>

definition endpoint ::
  "(app_state \<Rightarrow> (error + 'a) \<times> app_state) \<Rightarrow> request \<Rightarrow> app_state \<Rightarrow>
   (error + 'a response) \<times> app_state" where
  "endpoint route req s = (case route s of (outcome, s') \<Rightarrow> (handle_exceptions outcome, s'))"

text \<open>
  \<^verbatim>\<open>log_requests\<close>, around any \<open>call_next\<close>. The two readings of \<^verbatim>\<open>time.time()\<close> are the
  arguments \<open>t0\<close> and \<open>t1\<close>, and \<open>fmt3\<close> is the \<^verbatim>\<open>:.3f\<close> formatting of the duration. The call of
  \<open>call_next\<close> is not guarded: when it raises, the rest of the function does not run.
\<close>

definition log_requests ::
  "(real \<Rightarrow> string) \<Rightarrow> real \<Rightarrow> real \<Rightarrow> request \<Rightarrow>
   (request \<Rightarrow> app_state \<Rightarrow> (error + 'a response) \<times> app_state) \<Rightarrow> app_state \<Rightarrow>
   (error + 'a response) \<times> app_state" where
  "log_requests fmt3 t0 t1 req call_next s =
     (let start_time = t0
      in case call_next req s of
           (Inl e, s1) \<Rightarrow> (Inl e, s1)
         | (Inr resp, s1) \<Rightarrow>
             (let duration = t1 - start_time;
                  s2 = logger_info
                         (request_method req @ py '' '' @ url_path req @ py '' - '' @
                          py (''Status: '' @ str_int (status_code resp)) @ py '' - '' @
                          py (''Duration: '' @ fmt3 duration @ ''s'')) s1
              in (Inr resp, s2)))"

text \<open>A request through the whole stack, and through the stack without the middleware.\<close>

definition serve ::
  "(real \<Rightarrow> string) \<Rightarrow> real \<Rightarrow> real \<Rightarrow> request \<Rightarrow>
   (app_state \<Rightarrow> (error + 'a) \<times> app_state) \<Rightarrow> app_state \<Rightarrow> 'a response \<times> app_state" where
  "serve fmt3 t0 t1 req route s =
     (case log_requests fmt3 t0 t1 req (endpoint route) s of
        (outcome, s') \<Rightarrow> (server_error outcome, s'))"

definition serve_without_middleware ::
  "request \<Rightarrow> (app_state \<Rightarrow> (error + 'a) \<times> app_state) \<Rightarrow> app_state \<Rightarrow> 'a response \<times> app_state" where
  "serve_without_middleware req route s =
     (case endpoint route req s of (outcome, s') \<Rightarrow> (server_error outcome, s'))"

subsection \<open>Runs of the service\<close>

text \<open>
  The calls that reach a handler, and the state after a sequence of them. The table is
  created empty (\<^verbatim>\<open>Base.metadata.create_all\<close>).
\<close>

datatype call =
  GetBooks
| GetBook int
| CreateBook BookCreate
| UpdateBook int BookCreate
| DeleteBook int

fun step :: "call \<Rightarrow> app_state \<Rightarrow> app_state" where
  "step GetBooks s = snd (get_books s)"
| "step (GetBook i) s = snd (get_book i s)"
| "step (CreateBook b) s = snd (create_book b s)"
| "step (UpdateBook i b) s = snd (update_book i b s)"
| "step (DeleteBook i) s = snd (delete_book i s)"

definition init_state :: app_state where
  "init_state = \<lparr>books = [], api_log = []\<rparr>"

definition run :: "call list \<Rightarrow> app_state" where
  "run calls = fold step calls init_state"

text \<open>The ids of the stored rows, in the order of the table.\<close>

definition ids :: "app_state \<Rightarrow> int list" where
  "ids s = map id' (books s)"


declare digits.simps [simp del]

section \<open>Properties\<close>

subsection \<open>The storage engine: assigned ids and lookups\<close>

lemma fold_max_ge: "m \<le> fold (\<lambda>x m. max (id' x) m) rs m"
proof (induction rs arbitrary: m)
  case Nil
  show ?case by simp
next
  case (Cons x xs)
  have "m \<le> max (id' x) m" by simp
  also have "\<dots> \<le> fold (\<lambda>x m. max (id' x) m) xs (max (id' x) m)" by (rule Cons.IH)
  finally show ?case by simp
qed

lemma fold_max_mem: "r \<in> set rs \<Longrightarrow> id' r \<le> fold (\<lambda>x m. max (id' x) m) rs m"
proof (induction rs arbitrary: m)
  case Nil
  then show ?case by simp
next
  case (Cons x xs)
  show ?case
  proof (cases "r = x")
    case True
    have "id' x \<le> max (id' x) m" by simp
    also have "\<dots> \<le> fold (\<lambda>x m. max (id' x) m) xs (max (id' x) m)" by (rule fold_max_ge)
    finally show ?thesis using True by simp
  next
    case False
    with Cons.prems have "r \<in> set xs" by simp
    then show ?thesis using Cons.IH by simp
  qed
qed

lemma next_rowid_gt: "r \<in> set rows \<Longrightarrow> id' r < next_rowid rows"
proof (cases rows)
  case Nil
  assume "r \<in> set rows"
  with Nil show ?thesis by simp
next
  case (Cons x xs)
  assume "r \<in> set rows"
  with Cons have "r = x \<or> r \<in> set xs" by simp
  then have "id' r \<le> fold (\<lambda>x m. max (id' x) m) xs (id' x)"
    using fold_max_ge[of "id' x" xs] fold_max_mem[of r xs "id' x"] by auto
  with Cons show ?thesis by simp
qed

lemma next_rowid_fresh: "next_rowid (books s) \<notin> set (ids s)"
proof
  assume "next_rowid (books s) \<in> set (ids s)"
  then obtain r where "r \<in> set (books s)" and "id' r = next_rowid (books s)"
    by (auto simp: ids_def)
  then show False using next_rowid_gt[of r "books s"] by simp
qed

lemma select_by_id_set: "set (select_by_id i rows) = {r \<in> set rows. id' r = i}"
  by (auto simp: select_by_id_def scan_def)

lemma select_by_id_Nil: "select_by_id i rows = [] \<longleftrightarrow> i \<notin> set (map id' rows)"
  by (auto simp: select_by_id_def scan_def filter_empty_conv)

lemma select_by_id_Cons:
  assumes "i \<in> set (map id' rows)"
  obtains r rs where "select_by_id i rows = r # rs" and "r \<in> set rows" and "id' r = i"
proof -
  from assms have "select_by_id i rows \<noteq> []" by (simp add: select_by_id_Nil)
  then obtain r rs where e: "select_by_id i rows = r # rs"
    by (cases "select_by_id i rows") auto
  then have "r \<in> set (select_by_id i rows)" by simp
  then have "r \<in> set rows" "id' r = i" by (simp_all add: select_by_id_set)
  with e show ?thesis by (rule that)
qed

lemma filter_unchanged:
  "(\<forall>r\<in>set rows. id' r \<noteq> i) \<Longrightarrow> filter (\<lambda>r. id' r \<noteq> i) rows = rows"
  by (induction rows) auto

lemma map_unchanged:
  "(\<forall>r\<in>set rows. id' r \<noteq> i) \<Longrightarrow> map (\<lambda>r. if id' r = i then f r else r) rows = rows"
  by (induction rows) auto

lemma id_set_fields [simp]: "id' (set_fields t a p r) = id' r"
  by (simp add: set_fields_def)

lemma set_fields_eq:
  "id' r = i \<Longrightarrow> set_fields t a p r = \<lparr>title = Some t, author = Some a, price = p, id' = i\<rparr>"
  by (cases r) (simp add: set_fields_def)

lemma filter_updated:
  "filter (\<lambda>r. id' r = i) (map (\<lambda>r. if id' r = i then set_fields t a p r else r) rows) =
     map (\<lambda>r. \<lparr>title = Some t, author = Some a, price = p, id' = i\<rparr>) (filter (\<lambda>r. id' r = i) rows)"
  by (induction rows) (simp_all add: set_fields_eq)

lemma filter_others_updated:
  "filter (\<lambda>r. id' r \<noteq> i) (map (\<lambda>r. if id' r = i then set_fields t a p r else r) rows) =
     filter (\<lambda>r. id' r \<noteq> i) rows"
  by (induction rows) simp_all

subsection \<open>The driver\<close>

lemma bind_book_ok:
  "utf8_encodable (title b) \<Longrightarrow> utf8_encodable (author b) \<Longrightarrow>
   bind_book b = Inr (title b, author b, bind_float (price b))"
  by (simp add: bind_book_def bind_str_def)

lemma bind_book_refused:
  "\<not> (utf8_encodable (title b) \<and> utf8_encodable (author b)) \<Longrightarrow>
   bind_book b = Inl UnicodeEncodeError"
  by (auto simp: bind_book_def bind_str_def)

subsection \<open>The handlers\<close>

lemma books_logger_info [simp]: "books (logger_info m s) = books s"
  by (simp add: logger_info_def)

lemma books_logger_warning [simp]: "books (logger_warning m s) = books s"
  by (simp add: logger_warning_def)

lemma get_book_overflow: "\<not> int64 i \<Longrightarrow> fst (get_book i s) = Inl OverflowError"
  by (simp add: get_book_def bind_int_def Let_def)

lemma get_book_found:
  assumes "int64 i" and "i \<in> set (ids s)"
  shows "\<exists>r\<in>set (books s). id' r = i \<and> fst (get_book i s) = Inr r"
proof -
  from assms(2) have "i \<in> set (map id' (books s))" by (simp add: ids_def)
  then obtain r rs where e: "select_by_id i (books s) = r # rs"
    and r: "r \<in> set (books s)" "id' r = i"
    by (rule select_by_id_Cons)
  have "fst (get_book i s) = Inr r"
    using e assms(1) by (simp add: get_book_def bind_int_def Let_def)
  with r show ?thesis by blast
qed

lemma get_book_missing:
  "int64 i \<Longrightarrow> i \<notin> set (ids s) \<Longrightarrow> fst (get_book i s) = Inl (HTTPException 404 ''Book not found'')"
  using select_by_id_Nil[of i "books s"]
  by (simp add: get_book_def bind_int_def Let_def ids_def)

lemma get_book_books: "books (snd (get_book i s)) = books s"
  by (simp add: get_book_def Let_def split: option.splits sum.splits)

lemma create_book_eq:
  assumes "utf8_encodable (title b)" and "utf8_encodable (author b)"
  shows "create_book b s =
     (Inr \<lparr>title = Some (title b), author = Some (author b), price = bind_float (price b),
            id' = next_rowid (books s)\<rparr>,
      (logger_info (py ''POST /books - Creating book: '' @ title b) s)
        \<lparr>books := books s @ [\<lparr>title = Some (title b), author = Some (author b),
                               price = bind_float (price b), id' = next_rowid (books s)\<rparr>]\<rparr>)"
  using assms by (simp add: create_book_def bind_book_ok insert_returning_def Let_def)

lemma create_book_refused:
  assumes "\<not> (utf8_encodable (title b) \<and> utf8_encodable (author b))"
  shows "create_book b s =
     (Inl UnicodeEncodeError, logger_info (py ''POST /books - Creating book: '' @ title b) s)"
  using bind_book_refused[OF assms] by (simp add: create_book_def Let_def)

lemma create_books:
  "books (snd (create_book b s)) =
     (if utf8_encodable (title b) \<and> utf8_encodable (author b)
      then books s @ [\<lparr>title = Some (title b), author = Some (author b),
                         price = bind_float (price b), id' = next_rowid (books s)\<rparr>]
      else books s)"
proof (cases "utf8_encodable (title b) \<and> utf8_encodable (author b)")
  case True
  then show ?thesis by (simp add: create_book_eq)
next
  case False
  then show ?thesis using create_book_refused[OF False, of s] by simp
qed

lemma update_books:
  "books (snd (update_book i b s)) =
     (if utf8_encodable (title b) \<and> utf8_encodable (author b) \<and> int64 i
      then map (\<lambda>r. if id' r = i then set_fields (title b) (author b) (bind_float (price b)) r else r)
             (books s)
      else books s)"
proof (cases "utf8_encodable (title b) \<and> utf8_encodable (author b)")
  case True
  then have "bind_book b = Inr (title b, author b, bind_float (price b))"
    by (simp add: bind_book_ok)
  then show ?thesis using True
    by (simp add: update_book_def update_returning_def bind_int_def Let_def split: option.splits)
next
  case False
  have "books (snd (update_book i b s)) = books s"
    using bind_book_refused[OF False] by (simp add: update_book_def Let_def)
  with False show ?thesis by auto
qed

lemma update_ids: "ids (snd (update_book i b s)) = ids s"
  by (simp add: ids_def update_books o_def)

lemma update_book_missing:
  assumes "utf8_encodable (title b)" and "utf8_encodable (author b)"
    and "int64 i" and "i \<notin> set (ids s)"
  shows "fst (update_book i b s) = Inl (HTTPException 404 ''Book not found'')"
  using assms select_by_id_Nil[of i "books s"]
  by (simp add: update_book_def bind_book_ok update_returning_def bind_int_def Let_def ids_def)

lemma update_book_found:
  assumes "utf8_encodable (title b)" and "utf8_encodable (author b)"
    and "int64 i" and "i \<in> set (ids s)"
  shows "fst (update_book i b s) =
           Inr \<lparr>title = Some (title b), author = Some (author b), price = bind_float (price b),
                 id' = i\<rparr>"
proof -
  from assms(4) have "i \<in> set (map id' (books s))" by (simp add: ids_def)
  then obtain r rs where e: "select_by_id i (books s) = r # rs" and "id' r = i"
    by (rule select_by_id_Cons)
  then have "set_fields (title b) (author b) (bind_float (price b)) r =
      \<lparr>title = Some (title b), author = Some (author b), price = bind_float (price b), id' = i\<rparr>"
    by (simp add: set_fields_eq)
  with e assms(1-3) show ?thesis
    by (simp add: update_book_def bind_book_ok update_returning_def bind_int_def Let_def)
qed

lemma update_book_refused:
  assumes "\<not> (utf8_encodable (title b) \<and> utf8_encodable (author b))"
  shows "fst (update_book i b s) = Inl UnicodeEncodeError"
  using bind_book_refused[OF assms] by (simp add: update_book_def Let_def)

lemma update_book_overflow:
  assumes "utf8_encodable (title b)" and "utf8_encodable (author b)" and "\<not> int64 i"
  shows "fst (update_book i b s) = Inl OverflowError"
  using assms by (simp add: update_book_def bind_book_ok bind_int_def Let_def)

lemma delete_books:
  "books (snd (delete_book i s)) =
     (if int64 i then filter (\<lambda>r. id' r \<noteq> i) (books s) else books s)"
  by (simp add: delete_book_def delete_returning_def bind_int_def Let_def split: option.splits)

lemma delete_book_overflow: "\<not> int64 i \<Longrightarrow> fst (delete_book i s) = Inl OverflowError"
  by (simp add: delete_book_def bind_int_def Let_def)

lemma delete_book_missing:
  "int64 i \<Longrightarrow> i \<notin> set (ids s) \<Longrightarrow>
   fst (delete_book i s) = Inl (HTTPException 404 ''Book not found'')"
  using select_by_id_Nil[of i "books s"]
  by (simp add: delete_book_def delete_returning_def bind_int_def Let_def ids_def)

lemma delete_book_found:
  assumes "int64 i" and "i \<in> set (ids s)"
  shows "fst (delete_book i s) = Inr [(''message'', ''Book deleted successfully'')]"
proof -
  from assms(2) have "i \<in> set (map id' (books s))" by (simp add: ids_def)
  then obtain r rs where e: "select_by_id i (books s) = r # rs"
    by (rule select_by_id_Cons)
  then show ?thesis using assms(1)
    by (simp add: delete_book_def delete_returning_def bind_int_def Let_def)
qed


lemma get_books_books: "books (snd (get_books s)) = books s"
  by (simp add: get_books_def Let_def)

subsection \<open>Ids along a run\<close>

text \<open>
  Every created record gets an id above all stored ones, so the table, kept in the order of
  insertion, is strictly increasing in its ids; a scan by ascending id then delivers the
  table in that order.
\<close>

lemma step_sorted:
  assumes "sorted_wrt (<) (ids s)"
  shows "sorted_wrt (<) (ids (step c s))"
proof (cases c)
  case GetBooks
  with assms show ?thesis by (simp add: ids_def get_books_books)
next
  case (GetBook i)
  with assms show ?thesis by (simp add: ids_def get_book_books)
next
  case (CreateBook b)
  have "\<forall>i\<in>set (map id' (books s)). i < next_rowid (books s)"
    using next_rowid_gt by auto
  with assms CreateBook show ?thesis
    by (simp add: ids_def create_books sorted_wrt_append)
next
  case (UpdateBook i b)
  with assms show ?thesis by (simp add: update_ids)
next
  case (DeleteBook i)
  have "map id' (filter (\<lambda>r. id' r \<noteq> i) (books s)) = filter (\<lambda>j. j \<noteq> i) (map id' (books s))"
    by (simp add: filter_map o_def)
  with assms DeleteBook show ?thesis
    by (simp add: ids_def delete_books sorted_wrt_filter)
qed

lemma fold_step_sorted:
  "sorted_wrt (<) (ids s) \<Longrightarrow> sorted_wrt (<) (ids (fold step calls s))"
  by (induction calls arbitrary: s) (simp_all add: step_sorted)

lemma run_sorted: "sorted_wrt (<) (ids (run calls))"
  unfolding run_def by (rule fold_step_sorted) (simp add: ids_def init_state_def)

lemma run_distinct: "distinct (ids (run calls))"
  using run_sorted[of calls] by (simp add: strict_sorted_iff)


text \<open>
  The ids of a table that a sequence of calls reaches from the empty table lie between 1
  and the number of the calls, so they are in the signed 64-bit range as long as there
  were fewer than \<open>2^63\<close> calls.
\<close>

lemma fold_max_le:
  "(\<forall>r\<in>set rs. id' r \<le> n) \<Longrightarrow> m \<le> n \<Longrightarrow> fold (\<lambda>x m. max (id' x) m) rs m \<le> n"
  by (induction rs arbitrary: m) simp_all

lemma next_rowid_le:
  assumes "\<forall>r\<in>set rows. id' r \<le> n" and "0 \<le> n"
  shows "next_rowid rows \<le> n + 1"
proof (cases rows)
  case Nil
  with assms(2) show ?thesis by simp
next
  case (Cons x xs)
  with assms(1) have "fold (\<lambda>x m. max (id' x) m) xs (id' x) \<le> n"
    by (intro fold_max_le) simp_all
  with Cons show ?thesis by simp
qed

lemma next_rowid_ge1:
  assumes "\<forall>r\<in>set rows. 1 \<le> id' r"
  shows "1 \<le> next_rowid rows"
proof (cases rows)
  case Nil
  then show ?thesis by simp
next
  case (Cons x xs)
  then have "id' x < next_rowid rows" by (intro next_rowid_gt) simp
  moreover from Cons assms have "1 \<le> id' x" by simp
  ultimately show ?thesis by simp
qed

lemma step_bounded:
  assumes "\<forall>r\<in>set (books s). 1 \<le> id' r \<and> id' r \<le> n" and "0 \<le> n"
  shows "\<forall>r\<in>set (books (step c s)). 1 \<le> id' r \<and> id' r \<le> n + 1"
proof (cases c)
  case GetBooks
  with assms show ?thesis by (auto simp: get_books_books)
next
  case (GetBook i)
  with assms show ?thesis by (auto simp: get_book_books)
next
  case (CreateBook b)
  have "1 \<le> next_rowid (books s)" using assms(1) by (intro next_rowid_ge1) simp
  moreover have "next_rowid (books s) \<le> n + 1" using assms by (intro next_rowid_le) simp_all
  ultimately show ?thesis using CreateBook assms(1) by (auto simp: create_books)
next
  case (UpdateBook i b)
  have "set (ids (snd (update_book i b s))) = set (ids s)" by (simp add: update_ids)
  then have "id' ` set (books (snd (update_book i b s))) = id' ` set (books s)"
    by (simp add: ids_def)
  with assms(1) UpdateBook show ?thesis by force
next
  case (DeleteBook i)
  with assms show ?thesis by (auto simp: delete_books)
qed

lemma fold_step_bounded:
  "\<forall>r\<in>set (books s). 1 \<le> id' r \<and> id' r \<le> n \<Longrightarrow> 0 \<le> n \<Longrightarrow>
   \<forall>r\<in>set (books (fold step calls s)). 1 \<le> id' r \<and> id' r \<le> n + int (length calls)"
proof (induction calls arbitrary: s n)
  case Nil
  then show ?case by simp
next
  case (Cons c cs)
  have "\<forall>r\<in>set (books (step c s)). 1 \<le> id' r \<and> id' r \<le> n + 1"
    using Cons.prems by (rule step_bounded)
  moreover have "0 \<le> n + 1" using Cons.prems(2) by simp
  ultimately have "\<forall>r\<in>set (books (fold step cs (step c s))).
      1 \<le> id' r \<and> id' r \<le> n + 1 + int (length cs)"
    by (rule Cons.IH)
  then show ?case by (simp add: algebra_simps)
qed

lemma run_ids_bounded: "i \<in> set (ids (run calls)) \<Longrightarrow> 1 \<le> i \<and> i \<le> int (length calls)"
  using fold_step_bounded[of init_state 0 calls]
  by (auto simp: run_def ids_def init_state_def)

lemma run_ids_int64:
  "length calls < 2 ^ 63 \<Longrightarrow> i \<in> set (ids (run calls)) \<Longrightarrow> int64 i"
proof -
  assume l: "length calls < 2 ^ 63" and "i \<in> set (ids (run calls))"
  then have b: "1 \<le> i" "i \<le> int (length calls)" using run_ids_bounded by auto
  from l have "int (length calls) < 2 ^ 63"
    by (metis of_nat_less_iff of_nat_numeral of_nat_power)
  with b show ?thesis by (simp add: int64_def)
qed

subsection \<open>Responses\<close>

lemma to_response_simps [simp]:
  "to_response (Inr v) = \<lparr>status_code = 200, body = Payload v\<rparr>"
  "to_response (Inl (HTTPException c d)) = \<lparr>status_code = c, body = Detail d\<rparr>"
  "to_response (Inl RequestValidationError) = \<lparr>status_code = 422, body = ValidationDetail\<rparr>"
  "to_response (Inl ResponseValidationError) = \<lparr>status_code = 500, body = ServerError\<rparr>"
  "to_response (Inl OverflowError) = \<lparr>status_code = 500, body = ServerError\<rparr>"
  "to_response (Inl UnicodeEncodeError) = \<lparr>status_code = 500, body = ServerError\<rparr>"
  by (simp_all add: to_response_def)






subsection \<open>The validator\<close>


lemma validate_well_typed:
  assumes "member (py ''title'') kvs = Some (JStr t)"
    and "member (py ''author'') kvs = Some (JStr a)"
    and "member (py ''price'') kvs = Some (JNum p)"
  shows "BookCreate_validate (JObj kvs) = Inr \<lparr>title = t, author = a, price = p\<rparr>"
  using assms by simp

lemma validate_float_None:
  "validate_float v = None \<longleftrightarrow>
     v = JNull \<or> (\<exists>xs. v = JArr xs) \<or> (\<exists>m. v = JObj m)
     \<or> (\<exists>x. v = JStr x \<and> (\<not> utf8_encodable x \<or> str_as_float x = None))"
  by (cases v) auto




subsection \<open>The claims\<close>

text \<open>
  Claim C1 says that the creation succeeds with status 200 and echoes the three values for
  every well-typed body. It does not for a price that is NaN, which the validator accepts as
  a float: the driver binds NaN as \<^verbatim>\<open>NULL\<close>, the row is stored without a price, the
  returned row does not fit the response model, and the answer is 500.
\<close>

theorem C1_nan_price:
  "BookCreate_validate
     (JObj [(py ''title'', JStr (py ''T'')), (py ''author'', JStr (py ''A'')),
            (py ''price'', JNum NaN)]) =
     Inr \<lparr>title = py ''T'', author = py ''A'', price = NaN\<rparr>
   \<and> to_response (fst (app_post_books
       (JObj [(py ''title'', JStr (py ''T'')), (py ''author'', JStr (py ''A'')),
              (py ''price'', JNum NaN)]) init_state)) =
     \<lparr>status_code = 500, body = ServerError\<rparr>
   \<and> books (snd (app_post_books
       (JObj [(py ''title'', JStr (py ''T'')), (py ''author'', JStr (py ''A'')),
              (py ''price'', JNum NaN)]) init_state)) =
     [\<lparr>title = Some (py ''T''), author = Some (py ''A''), price = None, id' = 1\<rparr>]"
  by (simp add: app_post_books_def member_def py_def create_book_def bind_book_def bind_str_def
      utf8_encodable_def scalar_def insert_returning_def init_state_def Let_def
      response_model_Book_def)

text \<open>
  Claim C1, amended. For every request body that is a JSON object whose members \<^verbatim>\<open>title\<close>
  and \<^verbatim>\<open>author\<close> are strings without a lone surrogate and whose member \<^verbatim>\<open>price\<close> is a finite
  number, \<^verbatim>\<open>POST /books\<close> succeeds with status 200 in every state; the storage engine assigns
  the new row an id that no stored row has, the row is added to the table, and the response
  carries exactly the three values of the body together with that id.
\<close>

theorem C1_create_book:
  assumes "member (py ''title'') kvs = Some (JStr t)" and "utf8_encodable t"
    and "member (py ''author'') kvs = Some (JStr a)" and "utf8_encodable a"
    and "member (py ''price'') kvs = Some (JNum (Num (Finite p)))"
  shows "fst (app_post_books (JObj kvs) s) =
           Inr \<lparr>title = t, author = a, price = Some p, id' = next_rowid (books s)\<rparr>
         \<and> to_response (fst (app_post_books (JObj kvs) s)) =
           \<lparr>status_code = 200,
            body = Payload \<lparr>title = t, author = a, price = Some p, id' = next_rowid (books s)\<rparr>\<rparr>
         \<and> next_rowid (books s) \<notin> set (ids s)
         \<and> books (snd (app_post_books (JObj kvs) s)) =
           books s @ [\<lparr>title = Some t, author = Some a, price = Some (Finite p),
                        id' = next_rowid (books s)\<rparr>]"
proof -
  let ?b = "\<lparr>title = t, author = a, price = Num (Finite p)\<rparr>"
  have v: "BookCreate_validate (JObj kvs) = Inr ?b"
    using assms(1,3,5) by (rule validate_well_typed)
  have c: "create_book ?b s =
     (Inr \<lparr>title = Some t, author = Some a, price = Some (Finite p), id' = next_rowid (books s)\<rparr>,
      (logger_info (py ''POST /books - Creating book: '' @ t) s)
        \<lparr>books := books s @ [\<lparr>title = Some t, author = Some a, price = Some (Finite p),
                               id' = next_rowid (books s)\<rparr>]\<rparr>)"
    using create_book_eq[of ?b s] assms(2,4) by simp
  show ?thesis
    using v c next_rowid_fresh[of s] by (simp add: app_post_books_def response_model_Book_def)
qed

text \<open>The body of \<^verbatim>\<open>test_create_book\<close>, on the empty table: the new record gets the id 1.\<close>

theorem C1_create_book_witness:
  "fst (app_post_books
          (JObj [(py ''title'', JStr (py ''Test Book'')), (py ''author'', JStr (py ''Test Author'')),
                 (py ''price'', JNum (Num (Finite 9.99)))]) init_state) =
     Inr \<lparr>title = py ''Test Book'', author = py ''Test Author'', price = Some 9.99, id' = 1\<rparr>"
  using C1_create_book[of
      "[(py ''title'', JStr (py ''Test Book'')), (py ''author'', JStr (py ''Test Author'')),
        (py ''price'', JNum (Num (Finite 9.99)))]"
      "py ''Test Book''" "py ''Test Author''" "9.99" init_state]
  by (simp add: member_def py_def utf8_encodable_def scalar_def init_state_def)




text \<open>
  Claim C3 says that an update of an existing record returns the record with the new
  values for every well-typed body. For a body whose price is NaN the price of the record
  becomes \<^verbatim>\<open>NULL\<close> and the answer is 500.
\<close>

theorem C3_nan_price:
  "BookCreate_validate
     (JObj [(py ''title'', JStr (py ''T'')), (py ''author'', JStr (py ''A'')),
            (py ''price'', JNum NaN)]) =
     Inr \<lparr>title = py ''T'', author = py ''A'', price = NaN\<rparr>
   \<and> to_response (fst (app_put_book 1
       (JObj [(py ''title'', JStr (py ''T'')), (py ''author'', JStr (py ''A'')),
              (py ''price'', JNum NaN)])
       \<lparr>books = [\<lparr>title = Some (py ''B''), author = Some (py ''C''), price = Some (Finite 1),
                   id' = 1\<rparr>], api_log = []\<rparr>)) =
     \<lparr>status_code = 500, body = ServerError\<rparr>
   \<and> books (snd (app_put_book 1
       (JObj [(py ''title'', JStr (py ''T'')), (py ''author'', JStr (py ''A'')),
              (py ''price'', JNum NaN)])
       \<lparr>books = [\<lparr>title = Some (py ''B''), author = Some (py ''C''), price = Some (Finite 1),
                   id' = 1\<rparr>], api_log = []\<rparr>)) =
     [\<lparr>title = Some (py ''T''), author = Some (py ''A''), price = None, id' = 1\<rparr>]"
  by (simp add: app_put_book_def member_def py_def update_book_def bind_book_def bind_str_def
      bind_int_def int64_def utf8_encodable_def scalar_def update_returning_def select_by_id_def
      scan_def set_fields_def Let_def response_model_Book_def)

text \<open>
  Claim C3, amended. When a record with the id \<open>i\<close> is stored, \<open>i\<close> in the signed 64-bit range
  as every id that the engine stores, and the body is accepted by the validator as
  \<open>(t, a, p)\<close> with strings without a lone surrogate and a finite price, \<^verbatim>\<open>PUT /books/{i}\<close>
  answers 200 with the record \<open>(t, a, p, i)\<close>; the ids of the table are unchanged, every stored
  record with the id \<open>i\<close> now holds \<open>t\<close>, \<open>a\<close> and \<open>p\<close>, every record with another id is
  unchanged and at its place, and a following \<^verbatim>\<open>GET /books/{i}\<close> returns \<open>(t, a, p, i)\<close>.
\<close>

theorem C3_update_book:
  assumes "int64 i" and "i \<in> set (ids s)"
    and "BookCreate_validate request_body = Inr \<lparr>title = t, author = a, price = Num (Finite p)\<rparr>"
    and "utf8_encodable t" and "utf8_encodable a"
  shows "fst (app_put_book i request_body s) =
           Inr \<lparr>title = t, author = a, price = Some p, id' = i\<rparr>
         \<and> to_response (fst (app_put_book i request_body s)) =
           \<lparr>status_code = 200, body = Payload \<lparr>title = t, author = a, price = Some p, id' = i\<rparr>\<rparr>
         \<and> ids (snd (app_put_book i request_body s)) = ids s
         \<and> filter (\<lambda>r. id' r = i) (books (snd (app_put_book i request_body s))) =
           map (\<lambda>r. \<lparr>title = Some t, author = Some a, price = Some (Finite p), id' = i\<rparr>)
             (filter (\<lambda>r. id' r = i) (books s))
         \<and> filter (\<lambda>r. id' r \<noteq> i) (books (snd (app_put_book i request_body s))) =
           filter (\<lambda>r. id' r \<noteq> i) (books s)
         \<and> (\<forall>k<length (books s). id' (books s ! k) \<noteq> i \<longrightarrow>
               books (snd (app_put_book i request_body s)) ! k = books s ! k)
         \<and> fst (app_get_book i (snd (app_put_book i request_body s))) =
           Inr \<lparr>title = t, author = a, price = Some p, id' = i\<rparr>"
proof -
  let ?b = "\<lparr>title = t, author = a, price = Num (Finite p)\<rparr>"
  let ?row = "\<lparr>title = Some t, author = Some a, price = Some (Finite p), id' = i\<rparr>"
  let ?out = "\<lparr>title = t, author = a, price = Some p, id' = i\<rparr>"
  let ?s' = "snd (update_book i ?b s)"
  have enc: "utf8_encodable (title ?b)" "utf8_encodable (author ?b)"
    using assms(4,5) by simp_all
  have r: "fst (update_book i ?b s) = Inr ?row"
    using update_book_found[OF enc assms(1,2)] by simp
  have ser: "response_model_Book ?row = Inr ?out"
    by (simp add: response_model_Book_def)
  have put: "app_put_book i request_body s = (Inr ?out, ?s')"
    using assms(3) r ser by (cases "update_book i ?b s") (simp add: app_put_book_def)
  have tbl: "books ?s' =
      map (\<lambda>r. if id' r = i then set_fields t a (Some (Finite p)) r else r) (books s)"
    using update_books[of i ?b s] enc assms(1) by simp
  have k: "ids ?s' = ids s" by (rule update_ids)
  have f: "filter (\<lambda>r. id' r = i) (books ?s') = map (\<lambda>r. ?row) (filter (\<lambda>r. id' r = i) (books s))"
    unfolding tbl by (rule filter_updated)
  have g: "filter (\<lambda>r. id' r \<noteq> i) (books ?s') = filter (\<lambda>r. id' r \<noteq> i) (books s)"
    unfolding tbl by (rule filter_others_updated)
  have h: "\<forall>k<length (books s). id' (books s ! k) \<noteq> i \<longrightarrow> books ?s' ! k = books s ! k"
    unfolding tbl by simp
  have "i \<in> set (ids ?s')" using k assms(2) by simp
  from get_book_found[OF assms(1) this] obtain r'
    where r': "r' \<in> set (books ?s')" "id' r' = i" "fst (get_book i ?s') = Inr r'" by blast
  then have "r' \<in> set (filter (\<lambda>r. id' r = i) (books ?s'))" by simp
  then have "r' = ?row" unfolding f by auto
  with r'(3) have "fst (get_book i ?s') = Inr ?row" by simp
  then have get: "fst (app_get_book i ?s') = Inr ?out"
    using ser by (cases "get_book i ?s'") (simp add: app_get_book_def)
  show ?thesis unfolding put using k f g h get by simp
qed

text \<open>The update of \<^verbatim>\<open>test_update_book\<close>.\<close>

theorem C3_update_book_witness:
  "fst (app_put_book 1
          (JObj [(py ''title'', JStr (py ''Updated Book'')), (py ''author'', JStr (py ''Updated Author'')),
                 (py ''price'', JNum (Num (Finite 12.99)))])
          \<lparr>books = [\<lparr>title = Some (py ''Test Book''), author = Some (py ''Test Author''),
                      price = Some (Finite 9.99), id' = 1\<rparr>], api_log = []\<rparr>) =
     Inr \<lparr>title = py ''Updated Book'', author = py ''Updated Author'', price = Some 12.99, id' = 1\<rparr>"
  using C3_update_book[of 1
      "\<lparr>books = [\<lparr>title = Some (py ''Test Book''), author = Some (py ''Test Author''),
                  price = Some (Finite 9.99), id' = 1\<rparr>], api_log = []\<rparr>"
      "JObj [(py ''title'', JStr (py ''Updated Book'')), (py ''author'', JStr (py ''Updated Author'')),
             (py ''price'', JNum (Num (Finite 12.99)))]"
      "py ''Updated Book''" "py ''Updated Author''" "12.99"]
  by (simp add: ids_def int64_def member_def py_def utf8_encodable_def scalar_def)

text \<open>
  Claim C4 says that an update and a deletion answer 404 for every integer id that no
  record has. For the id \<open>2^63\<close> both answer 500: the driver cannot bind the id.
\<close>

theorem C4_id_overflow:
  "9223372036854775808 \<notin> set (ids init_state)
   \<and> to_response (fst (app_delete_book 9223372036854775808 init_state)) =
     \<lparr>status_code = 500, body = ServerError\<rparr>
   \<and> to_response (fst (app_put_book 9223372036854775808
       (JObj [(py ''title'', JStr (py ''T'')), (py ''author'', JStr (py ''A'')),
              (py ''price'', JNum (Num (Finite 1)))]) init_state)) =
     \<lparr>status_code = 500, body = ServerError\<rparr>"
  by (simp add: ids_def init_state_def app_delete_book_def delete_book_def app_put_book_def
      update_book_def bind_book_def bind_str_def utf8_encodable_def scalar_def member_def py_def
      bind_int_def int64_def Let_def)

text \<open>
  Claim C4, amended. When \<open>i\<close> is in the signed 64-bit range and no stored record has the id
  \<open>i\<close>, \<^verbatim>\<open>DELETE /books/{i}\<close> answers 404 with the detail \<^verbatim>\<open>Book not found\<close>, and so does
  \<^verbatim>\<open>PUT /books/{i}\<close> with a body that the validator accepts and whose strings have no lone
  surrogate; both leave the table as it was.
\<close>

theorem C4_not_found:
  assumes "int64 i" and "i \<notin> set (ids s)"
    and "BookCreate_validate request_body = Inr b"
    and "utf8_encodable (title b)" and "utf8_encodable (author b)"
  shows "to_response (fst (app_put_book i request_body s)) =
           \<lparr>status_code = 404, body = Detail ''Book not found''\<rparr>
         \<and> books (snd (app_put_book i request_body s)) = books s
         \<and> to_response (fst (app_delete_book i s)) =
           \<lparr>status_code = 404, body = Detail ''Book not found''\<rparr>
         \<and> books (snd (app_delete_book i s)) = books s"
proof -
  have others: "\<forall>r\<in>set (books s). id' r \<noteq> i" using assms(2) by (auto simp: ids_def)
  have u404: "fst (update_book i b s) = Inl (HTTPException 404 ''Book not found'')"
    using assms(4,5,1,2) by (rule update_book_missing)
  have put: "app_put_book i request_body s =
      (Inl (HTTPException 404 ''Book not found''), snd (update_book i b s))"
    using assms(3) u404 by (cases "update_book i b s") (simp add: app_put_book_def)
  have u: "books (snd (update_book i b s)) = books s"
    unfolding update_books using others by (simp add: map_unchanged)
  have d: "books (snd (delete_book i s)) = books s"
    unfolding delete_books using others by (simp add: filter_unchanged)
  show ?thesis
    unfolding put app_delete_book_def
    using u d delete_book_missing[OF assms(1,2)] by simp
qed

text \<open>The requests of \<^verbatim>\<open>test_update_book_not_found\<close> and \<^verbatim>\<open>test_delete_book_not_found\<close>.\<close>

theorem C4_not_found_witness:
  "to_response (fst (app_put_book 999
          (JObj [(py ''title'', JStr (py ''Updated Book'')), (py ''author'', JStr (py ''Updated Author'')),
                 (py ''price'', JNum (Num (Finite 12.99)))]) init_state)) =
     \<lparr>status_code = 404, body = Detail ''Book not found''\<rparr>
   \<and> to_response (fst (app_delete_book 999 init_state)) =
     \<lparr>status_code = 404, body = Detail ''Book not found''\<rparr>"
  using C4_not_found[of 999 init_state
      "JObj [(py ''title'', JStr (py ''Updated Book'')), (py ''author'', JStr (py ''Updated Author'')),
             (py ''price'', JNum (Num (Finite 12.99)))]"
      "\<lparr>title = py ''Updated Book'', author = py ''Updated Author'', price = Num (Finite 12.99)\<rparr>"]
  by (simp add: ids_def int64_def member_def py_def utf8_encodable_def scalar_def init_state_def)

text \<open>
  Claim C5. When a record with the id \<open>i\<close> is stored, \<^verbatim>\<open>DELETE /books/{i}\<close> answers 200 with
  the fixed body \<^verbatim>\<open>{"message": "Book deleted successfully"}\<close> and not the data of the record;
  afterwards no stored record has the id \<open>i\<close>, and \<^verbatim>\<open>GET /books/{i}\<close> answers 404 with the
  detail \<^verbatim>\<open>Book not found\<close>. The id of a stored record is a rowid of the engine and so in
  the signed 64-bit range (\<open>run_ids_int64\<close>); the statement names the range, since the
  table of the model does not bound its ids.
\<close>

theorem C5_delete_book:
  assumes "int64 i" and "i \<in> set (ids s)"
  shows "fst (delete_book i s) = Inr [(''message'', ''Book deleted successfully'')]
         \<and> status_code (to_response (fst (delete_book i s))) = 200
         \<and> i \<notin> set (ids (snd (delete_book i s)))
         \<and> to_response (fst (get_book i (snd (delete_book i s)))) =
           \<lparr>status_code = 404, body = Detail ''Book not found''\<rparr>"
proof -
  have gone: "i \<notin> set (ids (snd (delete_book i s)))"
    using assms(1) by (auto simp: ids_def delete_books)
  show ?thesis
    using delete_book_found[OF assms] gone get_book_missing[OF assms(1) gone] by simp
qed

text \<open>The requests of \<^verbatim>\<open>test_delete_book\<close>.\<close>

theorem C5_delete_book_witness:
  "fst (delete_book 1
          \<lparr>books = [\<lparr>title = Some (py ''Test Book''), author = Some (py ''Test Author''),
                      price = Some (Finite 9.99), id' = 1\<rparr>], api_log = []\<rparr>) =
     Inr [(''message'', ''Book deleted successfully'')]
   \<and> to_response (fst (get_book 1 (snd (delete_book 1
          \<lparr>books = [\<lparr>title = Some (py ''Test Book''), author = Some (py ''Test Author''),
                      price = Some (Finite 9.99), id' = 1\<rparr>], api_log = []\<rparr>)))) =
     \<lparr>status_code = 404, body = Detail ''Book not found''\<rparr>"
  using C5_delete_book[of 1
      "\<lparr>books = [\<lparr>title = Some (py ''Test Book''), author = Some (py ''Test Author''),
                  price = Some (Finite 9.99), id' = 1\<rparr>], api_log = []\<rparr>"]
  by (simp add: ids_def int64_def)




text \<open>
  Claim C7 says that ids are unique in every reachable state and that the id of a deleted
  record is never given to a record created later. The second part does not hold: on the
  empty table, a created record gets the id 1; after its deletion, the next created
  record gets the id 1 again.
\<close>

theorem C7_id_reused:
  "fst (create_book \<lparr>title = py ''A'', author = py ''B'', price = Num (Finite 1)\<rparr> init_state) =
     Inr \<lparr>title = Some (py ''A''), author = Some (py ''B''), price = Some (Finite 1), id' = 1\<rparr>
   \<and> fst (delete_book 1
       (snd (create_book \<lparr>title = py ''A'', author = py ''B'', price = Num (Finite 1)\<rparr> init_state))) =
     Inr [(''message'', ''Book deleted successfully'')]
   \<and> fst (create_book \<lparr>title = py ''C'', author = py ''D'', price = Num (Finite 2)\<rparr>
       (snd (delete_book 1
         (snd (create_book \<lparr>title = py ''A'', author = py ''B'', price = Num (Finite 1)\<rparr>
                init_state))))) =
     Inr \<lparr>title = Some (py ''C''), author = Some (py ''D''), price = Some (Finite 2), id' = 1\<rparr>"
  by (simp add: init_state_def create_book_def bind_book_def bind_str_def py_def
      utf8_encodable_def scalar_def insert_returning_def logger_info_def
      delete_book_def delete_returning_def bind_int_def int64_def select_by_id_def scan_def Let_def)

text \<open>
  Claim C7, amended. In every state that a sequence of calls reaches from the empty table,
  the ids of the stored records are pairwise different, and a record created in that state
  gets an id that is larger than the id of every record stored at that moment, so that
  the ids stay pairwise different. The creation stores the record whenever the driver can
  encode its strings. (The id of a deleted record can be assigned again once no stored
  record has that id or a larger one.)
\<close>

theorem C7_ids_unique:
  "distinct (ids (run calls))
   \<and> (\<forall>i\<in>set (ids (run calls)). i < next_rowid (books (run calls)))
   \<and> (utf8_encodable (title b) \<and> utf8_encodable (author b) \<longrightarrow>
        fst (create_book b (run calls)) =
          Inr \<lparr>title = Some (title b), author = Some (author b), price = bind_float (price b),
                id' = next_rowid (books (run calls))\<rparr>)
   \<and> (\<forall>r. fst (create_book b (run calls)) = Inr r \<longrightarrow> id' r = next_rowid (books (run calls)))
   \<and> distinct (ids (snd (create_book b (run calls))))"
proof -
  have "\<forall>i\<in>set (ids (run calls)). i < next_rowid (books (run calls))"
    using next_rowid_gt[of _ "books (run calls)"] by (auto simp: ids_def)
  moreover have "distinct (ids (snd (create_book b (run calls))))"
    using run_distinct[of "calls @ [CreateBook b]"] by (simp add: run_def)
  moreover have "\<forall>r. fst (create_book b (run calls)) = Inr r \<longrightarrow>
      id' r = next_rowid (books (run calls))"
  proof (cases "utf8_encodable (title b) \<and> utf8_encodable (author b)")
    case True
    then show ?thesis by (simp add: create_book_eq)
  next
    case False
    then show ?thesis by (simp add: create_book_refused)
  qed
  ultimately show ?thesis using run_distinct[of calls] by (simp add: create_book_eq)
qed

text \<open>After two creations and the deletion of the first record, the third creation gets the id 3.\<close>

theorem C7_ids_unique_witness:
  "ids (run [CreateBook \<lparr>title = py ''A'', author = py ''B'', price = Num (Finite 1)\<rparr>,
             CreateBook \<lparr>title = py ''C'', author = py ''D'', price = Num (Finite 2)\<rparr>,
             DeleteBook 1]) = [2]
   \<and> fst (create_book \<lparr>title = py ''E'', author = py ''F'', price = Num (Finite 3)\<rparr>
       (run [CreateBook \<lparr>title = py ''A'', author = py ''B'', price = Num (Finite 1)\<rparr>,
             CreateBook \<lparr>title = py ''C'', author = py ''D'', price = Num (Finite 2)\<rparr>,
             DeleteBook 1])) =
     Inr \<lparr>title = Some (py ''E''), author = Some (py ''F''), price = Some (Finite 3), id' = 3\<rparr>"
  using C7_ids_unique[of "[CreateBook \<lparr>title = py ''A'', author = py ''B'', price = Num (Finite 1)\<rparr>,
             CreateBook \<lparr>title = py ''C'', author = py ''D'', price = Num (Finite 2)\<rparr>,
             DeleteBook 1]" "\<lparr>title = py ''E'', author = py ''F'', price = Num (Finite 3)\<rparr>"]
  by (simp add: init_state_def run_def create_book_def bind_book_def bind_str_def py_def
      utf8_encodable_def scalar_def insert_returning_def logger_info_def
      delete_book_def delete_returning_def bind_int_def int64_def select_by_id_def scan_def Let_def
      ids_def)




lemma log_requests_frame:
  "fst (log_requests fmt3 t0 t1 req call_next s) = fst (call_next req s)
   \<and> books (snd (log_requests fmt3 t0 t1 req call_next s)) = books (snd (call_next req s))
   \<and> api_log (snd (log_requests fmt3 t0 t1 req call_next s)) =
       api_log (snd (call_next req s)) @
       (case fst (call_next req s) of
          Inl e \<Rightarrow> []
        | Inr resp \<Rightarrow>
            [(INFO, request_method req @ py '' '' @ url_path req @ py '' - '' @
                    py (''Status: '' @ str_int (status_code resp)) @ py '' - '' @
                    py (''Duration: '' @ fmt3 (t1 - t0) @ ''s''))])"
  by (cases "call_next req s"; cases "fst (call_next req s)")
     (simp_all add: log_requests_def Let_def logger_info_def)

lemma serve_frame:
  "fst (serve fmt3 t0 t1 req route s) = fst (serve_without_middleware req route s)
   \<and> books (snd (serve fmt3 t0 t1 req route s)) = books (snd (serve_without_middleware req route s))"
  using log_requests_frame[of fmt3 t0 t1 req "endpoint route" s]
  by (cases "log_requests fmt3 t0 t1 req (endpoint route) s"; cases "endpoint route req s")
     (simp add: serve_def serve_without_middleware_def)

text \<open>
  Claim C9. Around every \<open>call_next\<close>, for every request and state, the middleware passes
  on what \<open>call_next\<close> gave, the response with its status code and body or the exception,
  and leaves the table as \<open>call_next\<close> left it. Its only effect is on the log: one line
  when \<open>call_next\<close> returned a response, none when it raised. The response that the client
  gets for a route is the same with the middleware and without it.
\<close>

theorem C9_log_requests:
  "fst (log_requests fmt3 t0 t1 req call_next s) = fst (call_next req s)
   \<and> books (snd (log_requests fmt3 t0 t1 req call_next s)) = books (snd (call_next req s))
   \<and> api_log (snd (log_requests fmt3 t0 t1 req call_next s)) =
       api_log (snd (call_next req s)) @
       (case fst (call_next req s) of
          Inl e \<Rightarrow> []
        | Inr resp \<Rightarrow>
            [(INFO, request_method req @ py '' '' @ url_path req @ py '' - '' @
                    py (''Status: '' @ str_int (status_code resp)) @ py '' - '' @
                    py (''Duration: '' @ fmt3 (t1 - t0) @ ''s''))])
   \<and> fst (serve fmt3 t0 t1 req route s) = fst (serve_without_middleware req route s)
   \<and> books (snd (serve fmt3 t0 t1 req route s)) = books (snd (serve_without_middleware req route s))"
  using log_requests_frame[of fmt3 t0 t1 req call_next s] serve_frame[of fmt3 t0 t1 req route s]
  by simp

text \<open>
  The middleware around \<^verbatim>\<open>GET /books/999\<close> on the empty table, where the 404 is passed on,
  and around a request whose id the driver cannot bind, where nothing is logged.
\<close>

theorem C9_log_requests_witness:
  "fst (log_requests (\<lambda>d. ''1.000'') 0 1 \<lparr>request_method = py ''GET'', url_path = py ''/books/999''\<rparr>
          (endpoint (app_get_book 999)) init_state) =
     Inr \<lparr>status_code = 404, body = Detail ''Book not found''\<rparr>
   \<and> fst (endpoint (app_get_book 999) \<lparr>request_method = py ''GET'', url_path = py ''/books/999''\<rparr>
          init_state) =
     Inr \<lparr>status_code = 404, body = Detail ''Book not found''\<rparr>
   \<and> fst (serve (\<lambda>d. ''1.000'') 0 1 \<lparr>request_method = py ''GET'', url_path = py ''/books/x''\<rparr>
          (app_get_book 9223372036854775808) init_state) =
     \<lparr>status_code = 500, body = ServerError\<rparr>
   \<and> api_log (snd (log_requests (\<lambda>d. ''1.000'') 0 1
          \<lparr>request_method = py ''GET'', url_path = py ''/books/x''\<rparr>
          (endpoint (app_get_book 9223372036854775808)) init_state)) =
     api_log (snd (endpoint (app_get_book 9223372036854775808)
          \<lparr>request_method = py ''GET'', url_path = py ''/books/x''\<rparr> init_state))"
  using C9_log_requests[of "\<lambda>d. ''1.000''" 0 1
      "\<lparr>request_method = py ''GET'', url_path = py ''/books/999''\<rparr>"
      "endpoint (app_get_book 999)" init_state "app_get_book 999"]
    C9_log_requests[of "\<lambda>d. ''1.000''" 0 1
      "\<lparr>request_method = py ''GET'', url_path = py ''/books/x''\<rparr>"
      "endpoint (app_get_book 9223372036854775808)" init_state "app_get_book 9223372036854775808"]
  by (simp add: endpoint_def app_get_book_def get_book_def bind_int_def int64_def select_by_id_def
      scan_def init_state_def Let_def logger_info_def serve_without_middleware_def
      split: prod.splits)

text \<open>
  Claim C10. \<^verbatim>\<open>create_book\<close> keeps every stored record as it was and appends one record,
  or none when the driver refuses a string; \<^verbatim>\<open>update_book\<close> on \<open>i\<close> keeps the number of
  records and every record whose id is not \<open>i\<close>, at its place; \<^verbatim>\<open>delete_book\<close> on \<open>i\<close> keeps
  every record whose id is not \<open>i\<close>, unchanged and in their order, and removes the others
  when the driver can bind \<open>i\<close>.
\<close>

theorem C10_frame:
  "books (snd (create_book b s)) =
     (if utf8_encodable (title b) \<and> utf8_encodable (author b)
      then books s @ [\<lparr>title = Some (title b), author = Some (author b),
                         price = bind_float (price b), id' = next_rowid (books s)\<rparr>]
      else books s)
   \<and> filter (\<lambda>r. id' r \<noteq> i) (books (snd (update_book i b s))) = filter (\<lambda>r. id' r \<noteq> i) (books s)
   \<and> length (books (snd (update_book i b s))) = length (books s)
   \<and> (\<forall>k<length (books s). id' (books s ! k) \<noteq> i \<longrightarrow> books (snd (update_book i b s)) ! k = books s ! k)
   \<and> books (snd (delete_book i s)) =
     (if int64 i then filter (\<lambda>r. id' r \<noteq> i) (books s) else books s)
   \<and> filter (\<lambda>r. id' r \<noteq> i) (books (snd (delete_book i s))) = filter (\<lambda>r. id' r \<noteq> i) (books s)"
  by (simp add: create_books update_books delete_books filter_others_updated)

text \<open>An update and a deletion of the record 1 in a table with the records 1 and 2.\<close>

theorem C10_frame_witness:
  "books (snd (update_book 1 \<lparr>title = py ''X'', author = py ''Y'', price = Num (Finite 5)\<rparr>
      \<lparr>books = [\<lparr>title = Some (py ''A''), author = Some (py ''B''), price = Some (Finite 1), id' = 1\<rparr>,
                \<lparr>title = Some (py ''C''), author = Some (py ''D''), price = Some (Finite 2), id' = 2\<rparr>],
        api_log = []\<rparr>)) =
     [\<lparr>title = Some (py ''X''), author = Some (py ''Y''), price = Some (Finite 5), id' = 1\<rparr>,
      \<lparr>title = Some (py ''C''), author = Some (py ''D''), price = Some (Finite 2), id' = 2\<rparr>]
   \<and> books (snd (delete_book 1
      \<lparr>books = [\<lparr>title = Some (py ''A''), author = Some (py ''B''), price = Some (Finite 1), id' = 1\<rparr>,
                \<lparr>title = Some (py ''C''), author = Some (py ''D''), price = Some (Finite 2), id' = 2\<rparr>],
        api_log = []\<rparr>)) =
     [\<lparr>title = Some (py ''C''), author = Some (py ''D''), price = Some (Finite 2), id' = 2\<rparr>]"
  using C10_frame[of "\<lparr>title = py ''X'', author = py ''Y'', price = Num (Finite 5)\<rparr>"
      "\<lparr>books = [\<lparr>title = Some (py ''A''), author = Some (py ''B''), price = Some (Finite 1), id' = 1\<rparr>,
                \<lparr>title = Some (py ''C''), author = Some (py ''D''), price = Some (Finite 2), id' = 2\<rparr>],
        api_log = []\<rparr>" 1]
  by (simp add: update_books set_fields_def int64_def py_def utf8_encodable_def scalar_def)

end
